theory Spec2Isabelle
  imports Main
begin

section \<open>Strings, integers as text, errors\<close>

text \<open>
  A Python \<^verbatim>\<open>str\<close> is a sequence of Unicode code points; it is modelled as the list of
  its code points. \<open>ustr\<close> writes an ASCII literal.
\<close>

type_synonym pystr = "nat list"

definition ustr :: "string \<Rightarrow> pystr" where
  "ustr cs = map of_char cs"

text \<open>\<^verbatim>\<open>str(n)\<close> / \<^verbatim>\<open>f"{n}"\<close> of a Python int: decimal digits, a minus sign when negative.\<close>

fun str_nat :: "nat \<Rightarrow> pystr" where
  "str_nat n = (if n < 10 then [48 + n] else str_nat (n div 10) @ [48 + n mod 10])"

definition str_int :: "int \<Rightarrow> pystr" where
  "str_int i = (if i < 0 then 45 # str_nat (nat (- i)) else str_nat (nat i))"

text \<open>The exceptions the modelled code can raise.\<close>

datatype exn = AttributeError | KeyError | IntegrityError

text \<open>\<^verbatim>\<open>datetime.date\<close> and \<^verbatim>\<open>datetime.datetime\<close>.\<close>

record date =
  year :: int
  month :: int
  day :: int

record datetime = date +
  hour :: int
  minute :: int
  second :: int


section \<open>The slug deriver\<close>

text \<open>
  \<^verbatim>\<open>slugify\<close> is imported from \<^verbatim>\<open>django.utils.text\<close> (models.py, line 2) and called
  with its default \<^verbatim>\<open>allow_unicode=False\<close>. Its body in Django (3.2 and later) is
  \<^verbatim>\<open>
    value = str(value)
    value = (unicodedata.normalize("NFKD", value)
             .encode("ascii", "ignore").decode("ascii"))
    value = re.sub(r"[^\w\s-]", "", value.lower())
    return re.sub(r"[-\s]+", "-", value).strip("-_")
  \<close>
  The Unicode normalisation is a parameter \<open>N\<close> of the model. Everything after it
  works on ASCII text, where \<^verbatim>\<open>\w\<close> is a letter, a digit or the underscore and
  \<^verbatim>\<open>\s\<close> is one of the code points 9-13, 28-31 and 32.
\<close>

definition encode_ascii_ignore :: "pystr \<Rightarrow> pystr" where
  "encode_ascii_ignore s = filter (\<lambda>c. c < 128) s"

definition lower_char :: "nat \<Rightarrow> nat" where
  "lower_char c = (if 65 \<le> c \<and> c \<le> 90 then c + 32 else c)"

definition lower :: "pystr \<Rightarrow> pystr" where
  "lower s = map lower_char s"

definition is_word :: "nat \<Rightarrow> bool" where
  "is_word c \<longleftrightarrow> (97 \<le> c \<and> c \<le> 122) \<or> (65 \<le> c \<and> c \<le> 90) \<or> (48 \<le> c \<and> c \<le> 57) \<or> c = 95"

definition is_space :: "nat \<Rightarrow> bool" where
  "is_space c \<longleftrightarrow> (9 \<le> c \<and> c \<le> 13) \<or> (28 \<le> c \<and> c \<le> 32)"

text \<open>\<^verbatim>\<open>re.sub(r"[^\w\s-]", "", s)\<close>\<close>

definition drop_other :: "pystr \<Rightarrow> pystr" where
  "drop_other s = filter (\<lambda>c. is_word c \<or> is_space c \<or> c = 45) s"

text \<open>\<^verbatim>\<open>re.sub(r"[-\s]+", "-", s)\<close>: every maximal run of hyphens and spaces becomes one hyphen.\<close>

definition is_sep :: "nat \<Rightarrow> bool" where
  "is_sep c \<longleftrightarrow> c = 45 \<or> is_space c"

function collapse :: "pystr \<Rightarrow> pystr" where
  "collapse [] = []"
| "collapse (c # cs) = (if is_sep c then 45 # collapse (dropWhile is_sep cs) else c # collapse cs)"
  by pat_completeness auto
termination
  by (relation "measure length") (auto simp: length_dropWhile_le less_Suc_eq_le)

text \<open>\<^verbatim>\<open>s.strip("-_")\<close>\<close>

definition is_edge :: "nat \<Rightarrow> bool" where
  "is_edge c \<longleftrightarrow> c = 45 \<or> c = 95"

definition strip_edges :: "pystr \<Rightarrow> pystr" where
  "strip_edges s = rev (dropWhile is_edge (rev (dropWhile is_edge s)))"

definition slugify :: "(pystr \<Rightarrow> pystr) \<Rightarrow> pystr \<Rightarrow> pystr" where
  "slugify N v = strip_edges (collapse (drop_other (lower (encode_ascii_ignore (N v)))))"

text \<open>
  \<^verbatim>\<open>unicodedata.normalize("NFKD", s)\<close>. The Unicode decomposition data is modelled on a
  range of code points: ASCII and Latin-1 (U+0000 to U+00FF), the letters of the Russian
  alphabet (U+0410 to U+044F, U+0401, U+0451) and the numero sign U+2116.
  \<open>NFKD_table\<close> lists every code point of the range that has a decomposition, with its
  full compatibility decomposition; the others of the range are left as they are. No
  code point of the range is a combining mark and every decomposition starts with a
  base character, so on a string of the range the normal form is the decompositions
  one after the other. On any other string the normalisation is the parameter
  \<open>other\<close>: nothing is assumed about it.
\<close>

definition NFKD_table :: "(nat \<times> pystr) list" where
  "NFKD_table =
    [(0xA0, [0x20]), (0xA8, [0x20, 0x308]), (0xAA, [0x61]), (0xAF, [0x20, 0x304]),
     (0xB2, [0x32]), (0xB3, [0x33]), (0xB4, [0x20, 0x301]), (0xB5, [0x3BC]),
     (0xB8, [0x20, 0x327]), (0xB9, [0x31]), (0xBA, [0x6F]), (0xBC, [0x31, 0x2044, 0x34]),
     (0xBD, [0x31, 0x2044, 0x32]), (0xBE, [0x33, 0x2044, 0x34]), (0xC0, [0x41, 0x300]),
     (0xC1, [0x41, 0x301]), (0xC2, [0x41, 0x302]), (0xC3, [0x41, 0x303]),
     (0xC4, [0x41, 0x308]), (0xC5, [0x41, 0x30A]), (0xC7, [0x43, 0x327]),
     (0xC8, [0x45, 0x300]), (0xC9, [0x45, 0x301]), (0xCA, [0x45, 0x302]),
     (0xCB, [0x45, 0x308]), (0xCC, [0x49, 0x300]), (0xCD, [0x49, 0x301]),
     (0xCE, [0x49, 0x302]), (0xCF, [0x49, 0x308]), (0xD1, [0x4E, 0x303]),
     (0xD2, [0x4F, 0x300]), (0xD3, [0x4F, 0x301]), (0xD4, [0x4F, 0x302]),
     (0xD5, [0x4F, 0x303]), (0xD6, [0x4F, 0x308]), (0xD9, [0x55, 0x300]),
     (0xDA, [0x55, 0x301]), (0xDB, [0x55, 0x302]), (0xDC, [0x55, 0x308]),
     (0xDD, [0x59, 0x301]), (0xE0, [0x61, 0x300]), (0xE1, [0x61, 0x301]),
     (0xE2, [0x61, 0x302]), (0xE3, [0x61, 0x303]), (0xE4, [0x61, 0x308]),
     (0xE5, [0x61, 0x30A]), (0xE7, [0x63, 0x327]), (0xE8, [0x65, 0x300]),
     (0xE9, [0x65, 0x301]), (0xEA, [0x65, 0x302]), (0xEB, [0x65, 0x308]),
     (0xEC, [0x69, 0x300]), (0xED, [0x69, 0x301]), (0xEE, [0x69, 0x302]),
     (0xEF, [0x69, 0x308]), (0xF1, [0x6E, 0x303]), (0xF2, [0x6F, 0x300]),
     (0xF3, [0x6F, 0x301]), (0xF4, [0x6F, 0x302]), (0xF5, [0x6F, 0x303]),
     (0xF6, [0x6F, 0x308]), (0xF9, [0x75, 0x300]), (0xFA, [0x75, 0x301]),
     (0xFB, [0x75, 0x302]), (0xFC, [0x75, 0x308]), (0xFD, [0x79, 0x301]),
     (0xFF, [0x79, 0x308]), (0x401, [0x415, 0x308]), (0x451, [0x435, 0x308]),
     (0x419, [0x418, 0x306]), (0x439, [0x438, 0x306]), (0x2116, [0x4E, 0x6F])]"

definition in_NFKD_range :: "nat \<Rightarrow> bool" where
  "in_NFKD_range c \<longleftrightarrow>
     c \<le> 0xFF \<or> (0x410 \<le> c \<and> c \<le> 0x44F) \<or> c = 0x401 \<or> c = 0x451 \<or> c = 0x2116"

definition NFKD_char :: "nat \<Rightarrow> pystr" where
  "NFKD_char c =
     (if c < 128 then [c] else case map_of NFKD_table c of Some d \<Rightarrow> d | None \<Rightarrow> [c])"

definition normalize_NFKD :: "(pystr \<Rightarrow> pystr) \<Rightarrow> pystr \<Rightarrow> pystr" where
  "normalize_NFKD other s =
     (if list_all in_NFKD_range s then concat (map NFKD_char s) else other s)"

definition russian_letter :: "nat \<Rightarrow> bool" where
  "russian_letter c \<longleftrightarrow> (0x410 \<le> c \<and> c \<le> 0x44F) \<or> c = 0x401 \<or> c = 0x451"






section \<open>The models of models.py\<close>

text \<open>
  Each model class is a record of its fields; \<open>pk\<close> is the automatic primary key
  (\<open>None\<close> until the first write). Char, text, slug and URL fields are strings,
  nullable fields are options, an image or file field holds the stored file's name.
\<close>

record MediaPublication =
  pk :: "nat option"
  title :: pystr
  slug :: pystr
  publication_date :: date
  author :: pystr
  source :: pystr
  source_url :: pystr
  short_description :: pystr
  full_content :: pystr
  publication_type :: pystr
  main_image :: "pystr option"
  is_published :: bool
  created_at :: "datetime option"
  updated_at :: "datetime option"

record Project =
  pk :: "nat option"
  title :: pystr
  slug :: pystr
  short_description :: pystr
  full_description :: pystr
  status :: pystr
  start_date :: "date option"
  end_date :: "date option"
  location :: pystr
  main_image :: "pystr option"
  is_featured :: bool
  created_at :: "datetime option"
  updated_at :: "datetime option"

text \<open>
  \<^verbatim>\<open>InterestingBase\<close> is abstract; \<^verbatim>\<open>Video\<close>, \<^verbatim>\<open>Music\<close> and \<^verbatim>\<open>Article\<close> extend it, each
  with a table of its own.
\<close>

record InterestingBase =
  pk :: "nat option"
  title :: pystr
  slug :: pystr
  description :: pystr
  thumbnail :: "pystr option"
  created_at :: "datetime option"
  updated_at :: "datetime option"
  is_published :: bool
  views :: nat

record Video = InterestingBase +
  video_file :: "pystr option"
  duration :: "int option"

record Music = InterestingBase +
  audio_file :: "pystr option"
  duration :: "int option"
  artist :: pystr

record Article = InterestingBase +
  content :: pystr
  author :: pystr
  reading_time :: nat
  tags :: "nat list"

record InterestingTag =
  pk :: "nat option"
  name :: pystr
  slug :: pystr


subsection \<open>save\<close>

text \<open>
  \<^verbatim>\<open>
    def save(self, *args, **kwargs):
        if not self.slug:
            self.slug = slugify(self.title)
        super().save(*args, **kwargs)
  \<close>
  \<open>slugify\<close> and the framework's \<^verbatim>\<open>super().save\<close> are parameters: the write gets the
  instance as the first statement leaves it, and the store \<open>db\<close>.
\<close>

definition MediaPublication_save ::
  "(pystr \<Rightarrow> pystr) \<Rightarrow> (MediaPublication \<Rightarrow> 'db \<Rightarrow> 'res) \<Rightarrow> MediaPublication \<Rightarrow> 'db \<Rightarrow> 'res" where
  "MediaPublication_save slugify_fn super_save self db =
     (let self' = (if MediaPublication.slug self = []
                   then self\<lparr>MediaPublication.slug := slugify_fn (MediaPublication.title self)\<rparr>
                   else self)
      in super_save self' db)"

definition Project_save ::
  "(pystr \<Rightarrow> pystr) \<Rightarrow> (Project \<Rightarrow> 'db \<Rightarrow> 'res) \<Rightarrow> Project \<Rightarrow> 'db \<Rightarrow> 'res" where
  "Project_save slugify_fn super_save self db =
     (let self' = (if Project.slug self = []
                   then self\<lparr>Project.slug := slugify_fn (Project.title self)\<rparr>
                   else self)
      in super_save self' db)"

definition InterestingBase_save ::
  "(pystr \<Rightarrow> pystr) \<Rightarrow> ('a InterestingBase_scheme \<Rightarrow> 'db \<Rightarrow> 'res)
     \<Rightarrow> 'a InterestingBase_scheme \<Rightarrow> 'db \<Rightarrow> 'res" where
  "InterestingBase_save slugify_fn super_save self db =
     (let self' = (if InterestingBase.slug self = []
                   then self\<lparr>InterestingBase.slug := slugify_fn (InterestingBase.title self)\<rparr>
                   else self)
      in super_save self' db)"

text \<open>\<^verbatim>\<open>InterestingTag.save\<close> derives the slug from \<^verbatim>\<open>self.name\<close>.\<close>

definition InterestingTag_save ::
  "(pystr \<Rightarrow> pystr) \<Rightarrow> (InterestingTag \<Rightarrow> 'db \<Rightarrow> 'res) \<Rightarrow> InterestingTag \<Rightarrow> 'db \<Rightarrow> 'res" where
  "InterestingTag_save slugify_fn super_save self db =
     (let self' = (if InterestingTag.slug self = []
                   then self\<lparr>InterestingTag.slug := slugify_fn (InterestingTag.name self)\<rparr>
                   else self)
      in super_save self' db)"


subsection \<open>Derived display properties\<close>

text \<open>\<^verbatim>\<open>dict(pairs)\<close>: a later pair with the same key replaces an earlier one.\<close>

definition dict :: "('k \<times> 'v) list \<Rightarrow> ('k \<rightharpoonup> 'v)" where
  "dict kvs = fold (\<lambda>(k, v) m. m(k \<mapsto> v)) kvs Map.empty"

text \<open>
  The \<^verbatim>\<open>months\<close> dictionary of \<^verbatim>\<open>formatted_date\<close>: the Russian month names in the
  genitive case (yanvarya, fevralya, marta, aprelya, maya, iyunya, iyulya, avgusta,
  sentyabrya, oktyabrya, noyabrya, dekabrya), as code points.
\<close>

definition months :: "(int \<times> pystr) list" where
  "months =
    [(1, [0x44F, 0x43D, 0x432, 0x430, 0x440, 0x44F]),
     (2, [0x444, 0x435, 0x432, 0x440, 0x430, 0x43B, 0x44F]),
     (3, [0x43C, 0x430, 0x440, 0x442, 0x430]),
     (4, [0x430, 0x43F, 0x440, 0x435, 0x43B, 0x44F]),
     (5, [0x43C, 0x430, 0x44F]),
     (6, [0x438, 0x44E, 0x43D, 0x44F]),
     (7, [0x438, 0x44E, 0x43B, 0x44F]),
     (8, [0x430, 0x432, 0x433, 0x443, 0x441, 0x442, 0x430]),
     (9, [0x441, 0x435, 0x43D, 0x442, 0x44F, 0x431, 0x440, 0x44F]),
     (10, [0x43E, 0x43A, 0x442, 0x44F, 0x431, 0x440, 0x44F]),
     (11, [0x43D, 0x43E, 0x44F, 0x431, 0x440, 0x44F]),
     (12, [0x434, 0x435, 0x43A, 0x430, 0x431, 0x440, 0x44F])]"

text \<open>
  \<^verbatim>\<open>
    return f"{self.publication_date.day} {months[self.publication_date.month]} {self.publication_date.year}"
  \<close>
  \<^verbatim>\<open>months[k]\<close> raises \<^verbatim>\<open>KeyError\<close> for a key the dictionary does not hold.
\<close>

definition formatted_date :: "MediaPublication \<Rightarrow> exn + pystr" where
  "formatted_date self =
     (case dict months (month (publication_date self)) of
        None \<Rightarrow> Inl KeyError
      | Some m \<Rightarrow>
          Inr (str_int (day (publication_date self)) @ [32] @ m @ [32]
               @ str_int (year (publication_date self))))"

text \<open>
  \<^verbatim>\<open>Project.STATUS_CHOICES\<close>; the labels are Tekushchiy proekt, Zavershen, Postoyannyy
  in Cyrillic.
\<close>

definition STATUS_CHOICES :: "(pystr \<times> pystr) list" where
  "STATUS_CHOICES =
    [(ustr ''current'',
        [0x422, 0x435, 0x43A, 0x443, 0x449, 0x438, 0x439, 0x20, 0x43F, 0x440, 0x43E, 0x435, 0x43A, 0x442]),
     (ustr ''completed'', [0x417, 0x430, 0x432, 0x435, 0x440, 0x448, 0x435, 0x43D]),
     (ustr ''permanent'', [0x41F, 0x43E, 0x441, 0x442, 0x43E, 0x44F, 0x43D, 0x43D, 0x44B, 0x439])]"

text \<open>
  \<^verbatim>\<open>
    if self.status == 'permanent':
        return f"S {self.start_date.year} goda"
    elif self.status == 'completed' and self.start_date and self.end_date:
        return f"{self.start_date.year}-{self.end_date.year}"
    elif self.start_date:
        return f"S {self.start_date.year}"
    return ""
  \<close>
  (S is the Cyrillic capital U+0421, goda the Cyrillic word U+0433 U+043E U+0434 U+0430.)
  \<^verbatim>\<open>start_date\<close> is nullable: reading \<^verbatim>\<open>.year\<close> of \<^verbatim>\<open>None\<close> raises \<^verbatim>\<open>AttributeError\<close>.
  A date is always true in a condition, so a date field is false only when it is \<^verbatim>\<open>None\<close>.
\<close>

definition Project_duration :: "Project \<Rightarrow> exn + pystr" where
  "Project_duration self =
     (if status self = ustr ''permanent'' then
        (case start_date self of
           None \<Rightarrow> Inl AttributeError
         | Some s \<Rightarrow> Inr ([0x421, 32] @ str_int (year s) @ [32, 0x433, 0x43E, 0x434, 0x430]))
      else if status self = ustr ''completed'' \<and> start_date self \<noteq> None \<and> end_date self \<noteq> None then
        Inr (str_int (year (the (start_date self))) @ [45] @ str_int (year (the (end_date self))))
      else if start_date self \<noteq> None then
        Inr ([0x421, 32] @ str_int (year (the (start_date self))))
      else Inr [])"

text \<open>\<^verbatim>\<open>return dict(self.STATUS_CHOICES).get(self.status, '')\<close>\<close>

definition status_label :: "Project \<Rightarrow> pystr" where
  "status_label self = (case dict STATUS_CHOICES (status self) of None \<Rightarrow> [] | Some l \<Rightarrow> l)"


subsection \<open>Detail URLs of the interesting materials\<close>






subsection \<open>Tables and their unique columns\<close>

text \<open>
  A table is the list of its rows. \<^verbatim>\<open>unique=True\<close> on a column says that no two rows
  of the table agree on it. Every concrete model has its own table, so the constraint
  on \<^verbatim>\<open>slug\<close> is one constraint per table.
\<close>

definition unique_column :: "('r \<Rightarrow> 'k) \<Rightarrow> 'r list \<Rightarrow> bool" where
  "unique_column col rows = distinct (map col rows)"



text \<open>The bare insert of a row, with no constraint applied.\<close>

definition insert_row :: "'r \<Rightarrow> 'r list \<Rightarrow> 'r list" where
  "insert_row self rows = rows @ [self]"

text \<open>A write that gives back the instance it was handed: it shows what save passes on.\<close>

definition handed_over :: "'r \<Rightarrow> unit \<Rightarrow> 'r" where
  "handed_over self db = self"


subsection \<open>The framework's write\<close>

text \<open>The largest key in use; a new row gets the one after it.\<close>

definition max_pk :: "nat option list \<Rightarrow> nat" where
  "max_pk ks = fold (\<lambda>k n. case k of None \<Rightarrow> n | Some i \<Rightarrow> max i n) ks 0"

text \<open>
  Modelled from the spec: the framework's write of an instance, which the models call
  as \<^verbatim>\<open>super().save\<close>, and the storage layer's unique index; neither is in models.py.
  The spec gives every entity an automatic id, has a record "created via normal
  insert" and "updated via normal field mutation thereafter", keeps a slug "unique
  across the entity's own table", and has a uniqueness violation "surfaced as a
  rejected write; no automatic retry or suffix generation". So: a write whose value in
  a unique column is held by another row of the table raises \<open>IntegrityError\<close> and
  leaves the table alone; an instance without a primary key is inserted under a fresh
  key; an instance with a key replaces the row of that key, or is inserted when no row
  has it. \<open>get_pk\<close>, \<open>set_pk\<close> read and set the key of a row, \<open>unique_cols\<close> are the
  columns declared \<^verbatim>\<open>unique=True\<close>.
  The automatic timestamps of a row are left as they are: no statement here is about
  them.
\<close>

definition Model_save ::
  "('r \<Rightarrow> nat option) \<Rightarrow> (nat option \<Rightarrow> 'r \<Rightarrow> 'r) \<Rightarrow> ('r \<Rightarrow> pystr) list
     \<Rightarrow> 'r \<Rightarrow> 'r list \<Rightarrow> exn + 'r list" where
  "Model_save get_pk set_pk unique_cols self rows =
     (let others = filter (\<lambda>r. get_pk r \<noteq> get_pk self) rows in
      if list_ex (\<lambda>col. col self \<in> set (map col others)) unique_cols then Inl IntegrityError
      else (case get_pk self of
              None \<Rightarrow> Inr (rows @ [set_pk (Some (Suc (max_pk (map get_pk rows)))) self])
            | Some k \<Rightarrow>
                if Some k \<in> set (map get_pk rows)
                then Inr (map (\<lambda>r. if get_pk r = Some k then self else r) rows)
                else Inr (rows @ [self])))"

text \<open>
  Modelled from the spec: the framework's write on the table of publications. The
  unique column is the one models.py declares, \<^verbatim>\<open>slug\<close>.
\<close>

definition MediaPublication_write ::
  "MediaPublication \<Rightarrow> MediaPublication list \<Rightarrow> exn + MediaPublication list" where
  "MediaPublication_write =
     Model_save MediaPublication.pk (\<lambda>k r. r\<lparr>MediaPublication.pk := k\<rparr>) [MediaPublication.slug]"

text \<open>
  Modelled from the spec: the framework's write on the table of projects, with the
  unique column \<^verbatim>\<open>slug\<close> of models.py.
\<close>

definition Project_write :: "Project \<Rightarrow> Project list \<Rightarrow> exn + Project list" where
  "Project_write = Model_save Project.pk (\<lambda>k r. r\<lparr>Project.pk := k\<rparr>) [Project.slug]"

text \<open>
  Modelled from the spec: the framework's write on the table of one concrete variant
  of InterestingBase, with the unique column \<^verbatim>\<open>slug\<close> of models.py.
\<close>

definition InterestingBase_write ::
  "'a InterestingBase_scheme \<Rightarrow> 'a InterestingBase_scheme list
     \<Rightarrow> exn + 'a InterestingBase_scheme list" where
  "InterestingBase_write =
     Model_save InterestingBase.pk (\<lambda>k r. r\<lparr>InterestingBase.pk := k\<rparr>) [InterestingBase.slug]"

text \<open>
  Modelled from the spec: the framework's write on the table of tags, with the two
  unique columns of models.py, \<^verbatim>\<open>name\<close> and \<^verbatim>\<open>slug\<close>.
\<close>

definition InterestingTag_write ::
  "InterestingTag \<Rightarrow> InterestingTag list \<Rightarrow> exn + InterestingTag list" where
  "InterestingTag_write =
     Model_save InterestingTag.pk (\<lambda>k r. r\<lparr>InterestingTag.pk := k\<rparr>)
       [InterestingTag.name, InterestingTag.slug]"

text \<open>
  A table is well formed when every row has a key, no two rows share a key, and every
  unique column is unique.
\<close>

definition table_ok :: "('r \<Rightarrow> nat option) \<Rightarrow> ('r \<Rightarrow> pystr) list \<Rightarrow> 'r list \<Rightarrow> bool" where
  "table_ok get_pk unique_cols rows \<longleftrightarrow>
     None \<notin> set (map get_pk rows) \<and> distinct (map get_pk rows) \<and>
     list_all (\<lambda>col. unique_column col rows) unique_cols"

text \<open>
  A run of writes, one instance after the other; a rejected write leaves the table as
  it was.
\<close>

fun writes :: "('r \<Rightarrow> 'r list \<Rightarrow> exn + 'r list) \<Rightarrow> 'r list \<Rightarrow> 'r list \<Rightarrow> 'r list" where
  "writes w [] rows = rows"
| "writes w (x # xs) rows = writes w xs (case w x rows of Inl e \<Rightarrow> rows | Inr rows' \<Rightarrow> rows')"


subsection \<open>Sample records\<close>

definition sample_publication :: MediaPublication where
  "sample_publication =
     \<lparr>MediaPublication.pk = None, title = ustr ''Hello, World!'', slug = [],
      publication_date = \<lparr>year = 2024, month = 11, day = 21\<rparr>, author = ustr ''A. Author'',
      source = ustr ''Daily News'', source_url = [], short_description = ustr ''A note'',
      full_content = [], publication_type = ustr ''article'', main_image = None,
      is_published = True, created_at = None, updated_at = None\<rparr>"

definition sample_project :: Project where
  "sample_project =
     \<lparr>Project.pk = None, title = ustr ''City Garden 2024'', slug = [],
      short_description = ustr ''A garden'', full_description = [], status = ustr ''permanent'',
      start_date = None, end_date = None, location = ustr ''Astana'', main_image = None,
      is_featured = False, created_at = None, updated_at = None\<rparr>"

definition sample_video :: Video where
  "sample_video =
     \<lparr>InterestingBase.pk = None, title = ustr ''Open Day'', slug = [], description = ustr ''A film'',
      thumbnail = None, created_at = None, updated_at = None, is_published = True, views = 0,
      video_file = Some (ustr ''open_day.mp4''), duration = None\<rparr>"



definition sample_tag :: InterestingTag where
  "sample_tag = \<lparr>InterestingTag.pk = None, name = ustr ''Open Day'', slug = []\<rparr>"


section \<open>Slug assignment on save\<close>

lemma NFKD_char_ascii: "c < 128 \<Longrightarrow> NFKD_char c = [c]"
  by (simp add: NFKD_char_def)

lemma concat_NFKD_ascii: "list_all (\<lambda>c. c < 128) s \<Longrightarrow> concat (map NFKD_char s) = s"
  by (induction s) (simp_all add: NFKD_char_ascii)

lemma normalize_NFKD_ascii:
  assumes "list_all (\<lambda>c. c < 128) s"
  shows "normalize_NFKD other s = s"
proof -
  from assms have "list_all in_NFKD_range s"
    by (auto simp: list_all_iff in_NFKD_range_def)
  with assms show ?thesis
    by (simp add: normalize_NFKD_def concat_NFKD_ascii)
qed

lemma slugify_hello_world:
  "slugify (normalize_NFKD other) (ustr ''Hello, World!'') = ustr ''hello-world''"
  by (simp add: slugify_def normalize_NFKD_ascii encode_ascii_ignore_def lower_def
      lower_char_def drop_other_def is_word_def is_space_def is_sep_def strip_edges_def
      is_edge_def ustr_def)

lemma slugify_city_garden:
  "slugify (normalize_NFKD other) (ustr ''City Garden 2024'') = ustr ''city-garden-2024''"
  by (simp add: slugify_def normalize_NFKD_ascii encode_ascii_ignore_def lower_def
      lower_char_def drop_other_def is_word_def is_space_def is_sep_def strip_edges_def
      is_edge_def ustr_def)

lemma slugify_open_day:
  "slugify (normalize_NFKD other) (ustr ''Open Day'') = ustr ''open-day''"
  by (simp add: slugify_def normalize_NFKD_ascii encode_ascii_ignore_def lower_def
      lower_char_def drop_other_def is_word_def is_space_def is_sep_def strip_edges_def
      is_edge_def ustr_def)

text \<open>
  C1. For each model with a slug (MediaPublication, Project, every variant of
  InterestingBase): when the slug is empty at the call of save, the instance that is
  written carries the slug \<open>slugify_fn title\<close>, a function of the title alone; when the
  slug is already set, save writes the instance as it is, also after its title was
  changed, so the slug stays what it was. This holds for every slug function and every
  framework write.
\<close>

theorem save_derives_slug_once:
  "(MediaPublication.slug m0 = [] \<longrightarrow>
      MediaPublication_save slugify_fn sv1 m0 db1 =
        sv1 (m0\<lparr>MediaPublication.slug := slugify_fn (MediaPublication.title m0)\<rparr>) db1) \<and>
   (MediaPublication.slug m1 \<noteq> [] \<longrightarrow>
      MediaPublication_save slugify_fn sv1 (m1\<lparr>MediaPublication.title := t1\<rparr>) db1 =
        sv1 (m1\<lparr>MediaPublication.title := t1\<rparr>) db1 \<and>
      MediaPublication.slug (m1\<lparr>MediaPublication.title := t1\<rparr>) = MediaPublication.slug m1) \<and>
   (Project.slug p0 = [] \<longrightarrow>
      Project_save slugify_fn sv2 p0 db2 =
        sv2 (p0\<lparr>Project.slug := slugify_fn (Project.title p0)\<rparr>) db2) \<and>
   (Project.slug p1 \<noteq> [] \<longrightarrow>
      Project_save slugify_fn sv2 (p1\<lparr>Project.title := t2\<rparr>) db2 =
        sv2 (p1\<lparr>Project.title := t2\<rparr>) db2 \<and>
      Project.slug (p1\<lparr>Project.title := t2\<rparr>) = Project.slug p1) \<and>
   (InterestingBase.slug b0 = [] \<longrightarrow>
      InterestingBase_save slugify_fn sv3 b0 db3 =
        sv3 (b0\<lparr>InterestingBase.slug := slugify_fn (InterestingBase.title b0)\<rparr>) db3) \<and>
   (InterestingBase.slug b1 \<noteq> [] \<longrightarrow>
      InterestingBase_save slugify_fn sv3 (b1\<lparr>InterestingBase.title := t3\<rparr>) db3 =
        sv3 (b1\<lparr>InterestingBase.title := t3\<rparr>) db3 \<and>
      InterestingBase.slug (b1\<lparr>InterestingBase.title := t3\<rparr>) = InterestingBase.slug b1)"
  by (simp add: MediaPublication_save_def Project_save_def InterestingBase_save_def)

theorem save_derives_slug_once_witness:
  "MediaPublication.slug sample_publication = [] \<and>
   MediaPublication_save (slugify (normalize_NFKD (\<lambda>s. s))) insert_row sample_publication [] =
     [sample_publication\<lparr>MediaPublication.slug := ustr ''hello-world''\<rparr>] \<and>
   MediaPublication_save (slugify (normalize_NFKD (\<lambda>s. s))) insert_row
       (sample_publication\<lparr>MediaPublication.slug := ustr ''hello-world'',
          MediaPublication.title := ustr ''Changed''\<rparr>) [] =
     [sample_publication\<lparr>MediaPublication.slug := ustr ''hello-world'',
        MediaPublication.title := ustr ''Changed''\<rparr>] \<and>
   Project.slug sample_project = [] \<and>
   Project_save (slugify (normalize_NFKD (\<lambda>s. s))) insert_row sample_project [] =
     [sample_project\<lparr>Project.slug := ustr ''city-garden-2024''\<rparr>] \<and>
   Project_save (slugify (normalize_NFKD (\<lambda>s. s))) insert_row
       (sample_project\<lparr>Project.slug := ustr ''city-garden-2024'',
          Project.title := ustr ''Changed''\<rparr>) [] =
     [sample_project\<lparr>Project.slug := ustr ''city-garden-2024'', Project.title := ustr ''Changed''\<rparr>] \<and>
   InterestingBase.slug sample_video = [] \<and>
   InterestingBase_save (slugify (normalize_NFKD (\<lambda>s. s))) insert_row sample_video [] =
     [sample_video\<lparr>InterestingBase.slug := ustr ''open-day''\<rparr>] \<and>
   InterestingBase_save (slugify (normalize_NFKD (\<lambda>s. s))) insert_row
       (sample_video\<lparr>InterestingBase.slug := ustr ''open-day'',
          InterestingBase.title := ustr ''Changed''\<rparr>) [] =
     [sample_video\<lparr>InterestingBase.slug := ustr ''open-day'', InterestingBase.title := ustr ''Changed''\<rparr>]"
proof -
  have titles:
    "MediaPublication.title sample_publication = ustr ''Hello, World!''"
    "Project.title sample_project = ustr ''City Garden 2024''"
    "InterestingBase.title sample_video = ustr ''Open Day''"
    by (simp_all add: sample_publication_def sample_project_def sample_video_def)
  have slugs:
    "MediaPublication.slug sample_publication = []"
    "Project.slug sample_project = []"
    "InterestingBase.slug sample_video = []"
    by (simp_all add: sample_publication_def sample_project_def sample_video_def)
  have set_slugs:
    "ustr ''hello-world'' \<noteq> []" "ustr ''city-garden-2024'' \<noteq> []" "ustr ''open-day'' \<noteq> []"
    by (simp_all add: ustr_def)
  show ?thesis
    using save_derives_slug_once
      [where ?m0.0 = sample_publication
         and ?m1.0 = "sample_publication\<lparr>MediaPublication.slug := ustr ''hello-world''\<rparr>"
         and ?p0.0 = sample_project
         and ?p1.0 = "sample_project\<lparr>Project.slug := ustr ''city-garden-2024''\<rparr>"
         and ?b0.0 = sample_video
         and ?b1.0 = "sample_video\<lparr>InterestingBase.slug := ustr ''open-day''\<rparr>"
         and slugify_fn = "slugify (normalize_NFKD (\<lambda>s. s))"
         and ?sv1.0 = insert_row and ?sv2.0 = insert_row and ?sv3.0 = insert_row
         and ?db1.0 = "[]" and ?db2.0 = "[]" and ?db3.0 = "[]"
         and ?t1.0 = "ustr ''Changed''" and ?t2.0 = "ustr ''Changed''" and ?t3.0 = "ustr ''Changed''"]
    by (simp add: titles slugs set_slugs slugify_hello_world slugify_city_garden slugify_open_day
        insert_row_def)
qed


section \<open>Derived display properties\<close>

subsection \<open>formatted_date\<close>

lemma dict_months:
  "dict months =
     [1 \<mapsto> snd (months ! 0), 2 \<mapsto> snd (months ! 1), 3 \<mapsto> snd (months ! 2),
      4 \<mapsto> snd (months ! 3), 5 \<mapsto> snd (months ! 4), 6 \<mapsto> snd (months ! 5),
      7 \<mapsto> snd (months ! 6), 8 \<mapsto> snd (months ! 7), 9 \<mapsto> snd (months ! 8),
      10 \<mapsto> snd (months ! 9), 11 \<mapsto> snd (months ! 10), 12 \<mapsto> snd (months ! 11)]"
  by (simp add: dict_def months_def)

lemma month_cases:
  "1 \<le> k \<Longrightarrow> k \<le> 12 \<Longrightarrow>
   (k::int) = 1 \<or> k = 2 \<or> k = 3 \<or> k = 4 \<or> k = 5 \<or> k = 6 \<or> k = 7 \<or> k = 8 \<or> k = 9 \<or> k = 10
     \<or> k = 11 \<or> k = 12"
  by arith

lemma dict_months_lookup:
  assumes "1 \<le> k" and "k \<le> 12"
  shows "dict months k = Some (snd (months ! nat (k - 1))) \<and> fst (months ! nat (k - 1)) = k"
proof -
  from assms consider "k = 1" | "k = 2" | "k = 3" | "k = 4" | "k = 5" | "k = 6" | "k = 7" | "k = 8"
    | "k = 9" | "k = 10" | "k = 11" | "k = 12"
    using month_cases [of k] by blast
  then show ?thesis
    by cases (simp_all add: dict_months, simp_all add: months_def)
qed

lemma str_int_examples:
  "str_int 2024 = ustr ''2024''" "str_int 21 = ustr ''21''" "str_int 8 = ustr ''8''"
  "str_int 2010 = ustr ''2010''" "str_int 2015 = ustr ''2015''" "str_int 2020 = ustr ''2020''"
  "str_int 2022 = ustr ''2022''"
  by (simp_all add: str_int_def ustr_def)

text \<open>
  C5. \<open>formatted_date\<close> of a publication whose date has a month from 1 to 12 is the
  day, a space, the entry of the 12-entry \<open>months\<close> table under that month (the Russian
  genitive name), a space, and the year; for 2024-11-21 it is "21 noyabrya 2024" in
  Cyrillic. The result is a function of the publication date alone, and being a
  string it leaves the record as it is.
\<close>

theorem formatted_date_day_month_year:
  "map fst months = [1, 2, 3, 4, 5, 6, 7, 8, 9, 10, 11, 12] \<and>
   (1 \<le> month d \<and> month d \<le> 12 \<longrightarrow>
      formatted_date (m\<lparr>publication_date := d\<rparr>) =
        Inr (str_int (day d) @ [32] @ snd (months ! nat (month d - 1)) @ [32] @ str_int (year d)) \<and>
      fst (months ! nat (month d - 1)) = month d) \<and>
   formatted_date (m\<lparr>publication_date := \<lparr>year = 2024, month = 11, day = 21\<rparr>\<rparr>) =
     Inr (ustr ''21 '' @ [0x43D, 0x43E, 0x44F, 0x431, 0x440, 0x44F] @ ustr '' 2024'') \<and>
   (publication_date m1 = publication_date m2 \<longrightarrow> formatted_date m1 = formatted_date m2)"
proof (intro conjI impI)
  show "map fst months = [1, 2, 3, 4, 5, 6, 7, 8, 9, 10, 11, 12]"
    by (simp add: months_def)
next
  assume "1 \<le> month d \<and> month d \<le> 12"
  then show "formatted_date (m\<lparr>publication_date := d\<rparr>) =
      Inr (str_int (day d) @ [32] @ snd (months ! nat (month d - 1)) @ [32] @ str_int (year d))"
    by (simp add: formatted_date_def dict_months_lookup)
next
  assume "1 \<le> month d \<and> month d \<le> 12"
  then show "fst (months ! nat (month d - 1)) = month d"
    by (simp add: dict_months_lookup)
next
  show "formatted_date (m\<lparr>publication_date := \<lparr>year = 2024, month = 11, day = 21\<rparr>\<rparr>) =
      Inr (ustr ''21 '' @ [0x43D, 0x43E, 0x44F, 0x431, 0x440, 0x44F] @ ustr '' 2024'')"
    by (simp add: formatted_date_def dict_months str_int_examples) (simp add: months_def ustr_def)
next
  assume "publication_date m1 = publication_date m2"
  then show "formatted_date m1 = formatted_date m2"
    unfolding formatted_date_def by (simp only:)
qed

theorem formatted_date_day_month_year_witness:
  "formatted_date (sample_publication\<lparr>publication_date := \<lparr>year = 2024, month = 3, day = 8\<rparr>\<rparr>) =
     Inr (ustr ''8 '' @ [0x43C, 0x430, 0x440, 0x442, 0x430] @ ustr '' 2024'') \<and>
   publication_date sample_publication =
     publication_date (sample_publication\<lparr>MediaPublication.title := ustr ''Changed''\<rparr>) \<and>
   formatted_date sample_publication =
     formatted_date (sample_publication\<lparr>MediaPublication.title := ustr ''Changed''\<rparr>)"
  using formatted_date_day_month_year
    [where d = "\<lparr>year = 2024, month = 3, day = 8\<rparr>" and m = sample_publication
       and ?m1.0 = sample_publication
       and ?m2.0 = "sample_publication\<lparr>MediaPublication.title := ustr ''Changed''\<rparr>"]
  by (simp add: str_int_examples) (simp add: months_def ustr_def)


subsection \<open>status_label\<close>

lemma dict_STATUS_CHOICES:
  "dict STATUS_CHOICES =
     [ustr ''current'' \<mapsto> snd (STATUS_CHOICES ! 0), ustr ''completed'' \<mapsto> snd (STATUS_CHOICES ! 1),
      ustr ''permanent'' \<mapsto> snd (STATUS_CHOICES ! 2)]"
  by (simp add: dict_def STATUS_CHOICES_def)

text \<open>
  C9. \<open>status_label\<close> is the label that \<open>STATUS_CHOICES\<close> gives the project's status:
  "Tekushchiy proekt" for current, "Zavershen" for completed, "Postoyannyy" for
  permanent (in Cyrillic), and the empty string for every other status value.
\<close>

theorem status_label_lookup:
  "status_label (p\<lparr>status := ustr ''current''\<rparr>) =
      [0x422, 0x435, 0x43A, 0x443, 0x449, 0x438, 0x439, 0x20, 0x43F, 0x440, 0x43E, 0x435, 0x43A, 0x442] \<and>
   status_label (p\<lparr>status := ustr ''completed''\<rparr>) =
      [0x417, 0x430, 0x432, 0x435, 0x440, 0x448, 0x435, 0x43D] \<and>
   status_label (p\<lparr>status := ustr ''permanent''\<rparr>) =
      [0x41F, 0x43E, 0x441, 0x442, 0x43E, 0x44F, 0x43D, 0x43D, 0x44B, 0x439] \<and>
   (status q \<noteq> ustr ''current'' \<and> status q \<noteq> ustr ''completed'' \<and> status q \<noteq> ustr ''permanent''
      \<longrightarrow> status_label q = [])"
  by (simp add: status_label_def dict_STATUS_CHOICES) (simp add: STATUS_CHOICES_def ustr_def)

theorem status_label_lookup_witness:
  "status (sample_project\<lparr>status := ustr ''archived''\<rparr>) \<noteq> ustr ''current'' \<and>
   status (sample_project\<lparr>status := ustr ''archived''\<rparr>) \<noteq> ustr ''completed'' \<and>
   status (sample_project\<lparr>status := ustr ''archived''\<rparr>) \<noteq> ustr ''permanent'' \<and>
   status_label (sample_project\<lparr>status := ustr ''archived''\<rparr>) = [] \<and>
   status_label (sample_project\<lparr>status := ustr ''completed''\<rparr>) =
      [0x417, 0x430, 0x432, 0x435, 0x440, 0x448, 0x435, 0x43D]"
  using status_label_lookup
    [where q = "sample_project\<lparr>status := ustr ''archived''\<rparr>" and p = sample_project]
  by (simp add: ustr_def)


subsection \<open>duration\<close>

text \<open>
  C2. The claim says that \<open>duration\<close> never raises and is empty for a project with no
  start date. The permanent branch reads the year of the start date without the test
  for a missing date that the two branches after it make: for a permanent project
  with no start date the property raises \<open>AttributeError\<close>.
\<close>

theorem duration_permanent_without_start_date:
  "status sample_project = ustr ''permanent'' \<and> start_date sample_project = None \<and>
   Project_duration sample_project = Inl AttributeError"
  by (simp add: Project_duration_def sample_project_def)

text \<open>
  Apart from that case \<open>duration\<close> is as described: for a permanent project with a
  start date "S <start-year> goda"; for a completed project with both dates
  "<start-year>-<end-year>"; for any other project with a start date "S <start-year>";
  and the empty string for a project that is not permanent and has no start date.
\<close>

theorem duration_with_start_date:
  "(status p = ustr ''permanent'' \<and> start_date p = Some s \<longrightarrow>
      Project_duration p = Inr ([0x421, 32] @ str_int (year s) @ [32, 0x433, 0x43E, 0x434, 0x430])) \<and>
   (status p = ustr ''completed'' \<and> start_date p = Some s \<and> end_date p = Some e \<longrightarrow>
      Project_duration p = Inr (str_int (year s) @ [45] @ str_int (year e))) \<and>
   (status p \<noteq> ustr ''permanent'' \<and> start_date p = Some s \<and>
    (status p \<noteq> ustr ''completed'' \<or> end_date p = None) \<longrightarrow>
      Project_duration p = Inr ([0x421, 32] @ str_int (year s))) \<and>
   (status p \<noteq> ustr ''permanent'' \<and> start_date p = None \<longrightarrow> Project_duration p = Inr [])"
  by (auto simp: Project_duration_def ustr_def split: option.splits)

theorem duration_with_start_date_witness:
  "Project_duration (sample_project\<lparr>start_date := Some \<lparr>year = 2010, month = 5, day = 1\<rparr>\<rparr>) =
     Inr ([0x421] @ ustr '' 2010 '' @ [0x433, 0x43E, 0x434, 0x430]) \<and>
   Project_duration (sample_project\<lparr>status := ustr ''completed'',
       start_date := Some \<lparr>year = 2015, month = 5, day = 1\<rparr>,
       end_date := Some \<lparr>year = 2020, month = 5, day = 1\<rparr>\<rparr>) = Inr (ustr ''2015-2020'') \<and>
   Project_duration (sample_project\<lparr>status := ustr ''current'',
       start_date := Some \<lparr>year = 2022, month = 5, day = 1\<rparr>\<rparr>) = Inr ([0x421] @ ustr '' 2022'') \<and>
   Project_duration (sample_project\<lparr>status := ustr ''current''\<rparr>) = Inr []"
proof -
  have st: "status sample_project = ustr ''permanent''" "start_date sample_project = None"
    "end_date sample_project = None"
    by (simp_all add: sample_project_def)
  have ne: "ustr ''current'' \<noteq> ustr ''permanent''" "ustr ''current'' \<noteq> ustr ''completed''"
    by (simp_all add: ustr_def)
  note a = duration_with_start_date
    [where p = "sample_project\<lparr>start_date := Some \<lparr>year = 2010, month = 5, day = 1\<rparr>\<rparr>"
       and s = "\<lparr>year = 2010, month = 5, day = 1\<rparr>", THEN conjunct1, THEN mp]
  note b = duration_with_start_date
    [where p = "sample_project\<lparr>status := ustr ''completed'',
       start_date := Some \<lparr>year = 2015, month = 5, day = 1\<rparr>,
       end_date := Some \<lparr>year = 2020, month = 5, day = 1\<rparr>\<rparr>"
       and s = "\<lparr>year = 2015, month = 5, day = 1\<rparr>" and e = "\<lparr>year = 2020, month = 5, day = 1\<rparr>",
       THEN conjunct2, THEN conjunct1, THEN mp]
  note c = duration_with_start_date
    [where p = "sample_project\<lparr>status := ustr ''current'',
       start_date := Some \<lparr>year = 2022, month = 5, day = 1\<rparr>\<rparr>"
       and s = "\<lparr>year = 2022, month = 5, day = 1\<rparr>",
       THEN conjunct2, THEN conjunct2, THEN conjunct1, THEN mp]
  note d = duration_with_start_date
    [where p = "sample_project\<lparr>status := ustr ''current''\<rparr>",
       THEN conjunct2, THEN conjunct2, THEN conjunct2, THEN mp]
  have "Project_duration (sample_project\<lparr>start_date := Some \<lparr>year = 2010, month = 5, day = 1\<rparr>\<rparr>) =
     Inr ([0x421] @ ustr '' 2010 '' @ [0x433, 0x43E, 0x434, 0x430])"
    using a by (simp add: st str_int_examples) (simp add: ustr_def)
  moreover have "Project_duration (sample_project\<lparr>status := ustr ''completed'',
       start_date := Some \<lparr>year = 2015, month = 5, day = 1\<rparr>,
       end_date := Some \<lparr>year = 2020, month = 5, day = 1\<rparr>\<rparr>) = Inr (ustr ''2015-2020'')"
    using b by (simp add: str_int_examples) (simp add: ustr_def)
  moreover have "Project_duration (sample_project\<lparr>status := ustr ''current'',
       start_date := Some \<lparr>year = 2022, month = 5, day = 1\<rparr>\<rparr>) = Inr ([0x421] @ ustr '' 2022'')"
    using c by (simp add: ne str_int_examples) (simp add: ustr_def)
  moreover have "Project_duration (sample_project\<lparr>status := ustr ''current''\<rparr>) = Inr []"
    using d by (simp add: ne st)
  ultimately show ?thesis by blast
qed


section \<open>What the slug deriver produces\<close>




































text \<open>Titles outside ASCII.\<close>

lemma NFKD_table_cyrillic:
  "list_all (\<lambda>(k, d). k < 0x400 \<or> k = 0x2116 \<or> list_all (\<lambda>x. 128 \<le> x) d) NFKD_table"
  by (simp add: NFKD_table_def)

lemma NFKD_russian:
  assumes "russian_letter c" and "x \<in> set (NFKD_char c)"
  shows "128 \<le> x"
proof (cases "map_of NFKD_table c")
  case None
  with assms show ?thesis
    by (auto simp: NFKD_char_def russian_letter_def split: if_splits)
next
  case (Some d)
  then have "(c, d) \<in> set NFKD_table" by (rule map_of_SomeD)
  with NFKD_table_cyrillic have "c < 0x400 \<or> c = 0x2116 \<or> list_all (\<lambda>x. 128 \<le> x) d"
    by (auto simp: list_all_iff)
  with assms Some show ?thesis
    by (auto simp: NFKD_char_def russian_letter_def list_all_iff split: if_splits)
qed

lemma encode_russian:
  assumes "list_all russian_letter t"
  shows "encode_ascii_ignore (normalize_NFKD other t) = []"
proof -
  from assms have "list_all in_NFKD_range t"
    by (auto simp: list_all_iff in_NFKD_range_def russian_letter_def)
  then have "normalize_NFKD other t = concat (map NFKD_char t)"
    by (simp add: normalize_NFKD_def)
  moreover have "\<forall>x \<in> set (concat (map NFKD_char t)). \<not> x < 128"
    using assms NFKD_russian by (fastforce simp: list_all_iff)
  ultimately show ?thesis
    by (simp add: encode_ascii_ignore_def filter_empty_conv)
qed

lemma slugify_russian:
  "list_all russian_letter t \<Longrightarrow> slugify (normalize_NFKD other) t = []"
  by (simp add: slugify_def encode_russian lower_def drop_other_def strip_edges_def)

lemma slugify_punctuation: "slugify (normalize_NFKD other) (ustr ''!!!'') = []"
  by (simp add: slugify_def normalize_NFKD_ascii encode_ascii_ignore_def lower_def
      lower_char_def drop_other_def is_word_def is_space_def is_sep_def strip_edges_def
      is_edge_def ustr_def)

text \<open>The title "Fond" (fund) in Cyrillic letters.\<close>

lemma slugify_fond: "slugify (normalize_NFKD other) [0x424, 0x43E, 0x43D, 0x434] = []"
  by (rule slugify_russian) (simp add: russian_letter_def)









section \<open>Titles whose derived slug is empty\<close>

lemma MediaPublication_slug_same:
  "MediaPublication.slug m = s \<Longrightarrow> m\<lparr>MediaPublication.slug := s\<rparr> = m"
  by (cases m) simp

lemma InterestingBase_slug_same:
  "InterestingBase.slug b = s \<Longrightarrow> b\<lparr>InterestingBase.slug := s\<rparr> = b"
  by (cases b) simp

text \<open>
  C10. When the slug is empty and the title's derived slug is empty too, save writes
  the instance as it is, its slug still empty, and the next save derives the slug
  again, from the title the instance has then. When the derived slug is not empty the
  first save fixes it: a later save with another title keeps it. Two instances of one
  table whose slugs stay empty agree on the slug, so a table that holds both breaks
  the uniqueness of the slug column. Stated for MediaPublication and for the variants
  of InterestingBase, for every slug function and every framework write.
\<close>

theorem empty_derived_slug_stays_empty:
  "(MediaPublication.slug m = [] \<and> slugify_fn (MediaPublication.title m) = [] \<longrightarrow>
      MediaPublication_save slugify_fn sv1 m db1 = sv1 m db1 \<and>
      MediaPublication_save slugify_fn handed_over m () = m \<and>
      MediaPublication_save slugify_fn sv1 (m\<lparr>MediaPublication.title := t1\<rparr>) db1 =
        sv1 (m\<lparr>MediaPublication.title := t1, MediaPublication.slug := slugify_fn t1\<rparr>) db1) \<and>
   (MediaPublication.slug m' = [] \<and> slugify_fn (MediaPublication.title m') \<noteq> [] \<longrightarrow>
      MediaPublication_save slugify_fn handed_over m' () =
        m'\<lparr>MediaPublication.slug := slugify_fn (MediaPublication.title m')\<rparr> \<and>
      MediaPublication_save slugify_fn sv1
          (m'\<lparr>MediaPublication.slug := slugify_fn (MediaPublication.title m'),
              MediaPublication.title := t1'\<rparr>) db1 =
        sv1 (m'\<lparr>MediaPublication.slug := slugify_fn (MediaPublication.title m'),
                MediaPublication.title := t1'\<rparr>) db1) \<and>
   (MediaPublication.slug x = [] \<and> slugify_fn (MediaPublication.title x) = [] \<and>
    MediaPublication.slug y = [] \<and> slugify_fn (MediaPublication.title y) = [] \<longrightarrow>
      \<not> unique_column MediaPublication.slug
          (MediaPublication_save slugify_fn insert_row y
             (MediaPublication_save slugify_fn insert_row x rows1))) \<and>
   (InterestingBase.slug b = [] \<and> slugify_fn (InterestingBase.title b) = [] \<longrightarrow>
      InterestingBase_save slugify_fn sv2 b db2 = sv2 b db2 \<and>
      InterestingBase_save slugify_fn handed_over b () = b \<and>
      InterestingBase_save slugify_fn sv2 (b\<lparr>InterestingBase.title := t2\<rparr>) db2 =
        sv2 (b\<lparr>InterestingBase.title := t2, InterestingBase.slug := slugify_fn t2\<rparr>) db2) \<and>
   (InterestingBase.slug b' = [] \<and> slugify_fn (InterestingBase.title b') \<noteq> [] \<longrightarrow>
      InterestingBase_save slugify_fn handed_over b' () =
        b'\<lparr>InterestingBase.slug := slugify_fn (InterestingBase.title b')\<rparr> \<and>
      InterestingBase_save slugify_fn sv2
          (b'\<lparr>InterestingBase.slug := slugify_fn (InterestingBase.title b'),
              InterestingBase.title := t2'\<rparr>) db2 =
        sv2 (b'\<lparr>InterestingBase.slug := slugify_fn (InterestingBase.title b'),
                InterestingBase.title := t2'\<rparr>) db2) \<and>
   (InterestingBase.slug u = [] \<and> slugify_fn (InterestingBase.title u) = [] \<and>
    InterestingBase.slug w = [] \<and> slugify_fn (InterestingBase.title w) = [] \<longrightarrow>
      \<not> unique_column InterestingBase.slug
          (InterestingBase_save slugify_fn insert_row w
             (InterestingBase_save slugify_fn insert_row u rows2)))"
  by (auto simp add: MediaPublication_save_def InterestingBase_save_def handed_over_def
      insert_row_def unique_column_def MediaPublication_slug_same InterestingBase_slug_same)

theorem empty_derived_slug_stays_empty_witness:
  "MediaPublication_save (slugify (normalize_NFKD (\<lambda>s. s))) insert_row
       (sample_publication\<lparr>MediaPublication.title := [0x424, 0x43E, 0x43D, 0x434]\<rparr>) [] =
     [sample_publication\<lparr>MediaPublication.title := [0x424, 0x43E, 0x43D, 0x434]\<rparr>] \<and>
   MediaPublication.slug (sample_publication\<lparr>MediaPublication.title := [0x424, 0x43E, 0x43D, 0x434]\<rparr>) = [] \<and>
   MediaPublication_save (slugify (normalize_NFKD (\<lambda>s. s))) insert_row
       (sample_publication\<lparr>MediaPublication.title := ustr ''Hello, World!''\<rparr>) [] =
     [sample_publication\<lparr>MediaPublication.title := ustr ''Hello, World!'',
        MediaPublication.slug := ustr ''hello-world''\<rparr>] \<and>
   MediaPublication_save (slugify (normalize_NFKD (\<lambda>s. s))) handed_over sample_publication () =
     sample_publication\<lparr>MediaPublication.slug := ustr ''hello-world''\<rparr> \<and>
   MediaPublication_save (slugify (normalize_NFKD (\<lambda>s. s))) insert_row
       (sample_publication\<lparr>MediaPublication.slug := ustr ''hello-world'',
          MediaPublication.title := [0x424, 0x43E, 0x43D, 0x434]\<rparr>) [] =
     [sample_publication\<lparr>MediaPublication.slug := ustr ''hello-world'',
        MediaPublication.title := [0x424, 0x43E, 0x43D, 0x434]\<rparr>] \<and>
   \<not> unique_column MediaPublication.slug
       (MediaPublication_save (slugify (normalize_NFKD (\<lambda>s. s))) insert_row
          (sample_publication\<lparr>MediaPublication.title := ustr ''!!!''\<rparr>)
          (MediaPublication_save (slugify (normalize_NFKD (\<lambda>s. s))) insert_row
             (sample_publication\<lparr>MediaPublication.title := [0x424, 0x43E, 0x43D, 0x434]\<rparr>) [])) \<and>
   InterestingBase_save (slugify (normalize_NFKD (\<lambda>s. s))) insert_row
       (sample_video\<lparr>InterestingBase.title := [0x424, 0x43E, 0x43D, 0x434]\<rparr>) [] =
     [sample_video\<lparr>InterestingBase.title := [0x424, 0x43E, 0x43D, 0x434]\<rparr>] \<and>
   InterestingBase.slug (sample_video\<lparr>InterestingBase.title := [0x424, 0x43E, 0x43D, 0x434]\<rparr>) = [] \<and>
   InterestingBase_save (slugify (normalize_NFKD (\<lambda>s. s))) handed_over sample_video () =
     sample_video\<lparr>InterestingBase.slug := ustr ''open-day''\<rparr> \<and>
   InterestingBase_save (slugify (normalize_NFKD (\<lambda>s. s))) insert_row
       (sample_video\<lparr>InterestingBase.slug := ustr ''open-day'',
          InterestingBase.title := [0x424, 0x43E, 0x43D, 0x434]\<rparr>) [] =
     [sample_video\<lparr>InterestingBase.slug := ustr ''open-day'',
        InterestingBase.title := [0x424, 0x43E, 0x43D, 0x434]\<rparr>] \<and>
   \<not> unique_column InterestingBase.slug
       (InterestingBase_save (slugify (normalize_NFKD (\<lambda>s. s))) insert_row
          (sample_video\<lparr>InterestingBase.title := ustr ''!!!''\<rparr>)
          (InterestingBase_save (slugify (normalize_NFKD (\<lambda>s. s))) insert_row
             (sample_video\<lparr>InterestingBase.title := [0x424, 0x43E, 0x43D, 0x434]\<rparr>) []))"
proof -
  have fields:
    "MediaPublication.title sample_publication = ustr ''Hello, World!''"
    "MediaPublication.slug sample_publication = []"
    "InterestingBase.title sample_video = ustr ''Open Day''"
    "InterestingBase.slug sample_video = []"
    by (simp_all add: sample_publication_def sample_video_def)
  have ne: "ustr ''hello-world'' \<noteq> []" "ustr ''open-day'' \<noteq> []"
    by (simp_all add: ustr_def)
  note inst = empty_derived_slug_stays_empty
      [where slugify_fn = "slugify (normalize_NFKD (\<lambda>s. s))"
         and m = "sample_publication\<lparr>MediaPublication.title := [0x424, 0x43E, 0x43D, 0x434]\<rparr>"
         and m' = sample_publication
         and x = "sample_publication\<lparr>MediaPublication.title := [0x424, 0x43E, 0x43D, 0x434]\<rparr>"
         and y = "sample_publication\<lparr>MediaPublication.title := ustr ''!!!''\<rparr>"
         and ?sv1.0 = insert_row and ?db1.0 = "[]" and ?rows1.0 = "[]"
         and ?t1.0 = "ustr ''Hello, World!''" and t1' = "[0x424, 0x43E, 0x43D, 0x434]"
         and b = "sample_video\<lparr>InterestingBase.title := [0x424, 0x43E, 0x43D, 0x434]\<rparr>"
         and b' = sample_video
         and u = "sample_video\<lparr>InterestingBase.title := [0x424, 0x43E, 0x43D, 0x434]\<rparr>"
         and w = "sample_video\<lparr>InterestingBase.title := ustr ''!!!''\<rparr>"
         and ?sv2.0 = insert_row and ?db2.0 = "[]" and ?rows2.0 = "[]"
         and ?t2.0 = "ustr ''Open Day''" and t2' = "[0x424, 0x43E, 0x43D, 0x434]"]
  let ?S = "slugify (normalize_NFKD (\<lambda>s. s))"
  let ?fond = "[0x424, 0x43E, 0x43D, 0x434] :: pystr"
  have h1: "MediaPublication.slug (sample_publication\<lparr>MediaPublication.title := ?fond\<rparr>) = [] \<and>
      ?S (MediaPublication.title (sample_publication\<lparr>MediaPublication.title := ?fond\<rparr>)) = []"
    by (simp add: fields slugify_fond)
  have h2: "MediaPublication.slug sample_publication = [] \<and>
      ?S (MediaPublication.title sample_publication) \<noteq> []"
    by (simp add: fields slugify_hello_world ne)
  have h3: "MediaPublication.slug (sample_publication\<lparr>MediaPublication.title := ?fond\<rparr>) = [] \<and>
      ?S (MediaPublication.title (sample_publication\<lparr>MediaPublication.title := ?fond\<rparr>)) = [] \<and>
      MediaPublication.slug (sample_publication\<lparr>MediaPublication.title := ustr ''!!!''\<rparr>) = [] \<and>
      ?S (MediaPublication.title (sample_publication\<lparr>MediaPublication.title := ustr ''!!!''\<rparr>)) = []"
    by (simp add: fields slugify_fond slugify_punctuation)
  have h4: "InterestingBase.slug (sample_video\<lparr>InterestingBase.title := ?fond\<rparr>) = [] \<and>
      ?S (InterestingBase.title (sample_video\<lparr>InterestingBase.title := ?fond\<rparr>)) = []"
    by (simp add: fields slugify_fond)
  have h5: "InterestingBase.slug sample_video = [] \<and> ?S (InterestingBase.title sample_video) \<noteq> []"
    by (simp add: fields slugify_open_day ne)
  have h6: "InterestingBase.slug (sample_video\<lparr>InterestingBase.title := ?fond\<rparr>) = [] \<and>
      ?S (InterestingBase.title (sample_video\<lparr>InterestingBase.title := ?fond\<rparr>)) = [] \<and>
      InterestingBase.slug (sample_video\<lparr>InterestingBase.title := ustr ''!!!''\<rparr>) = [] \<and>
      ?S (InterestingBase.title (sample_video\<lparr>InterestingBase.title := ustr ''!!!''\<rparr>)) = []"
    by (simp add: fields slugify_fond slugify_punctuation)
  note k1 = inst [THEN conjunct1, THEN mp, OF h1]
  note k2 = inst [THEN conjunct2, THEN conjunct1, THEN mp, OF h2]
  note k3 = inst [THEN conjunct2, THEN conjunct2, THEN conjunct1, THEN mp, OF h3]
  note k4 = inst [THEN conjunct2, THEN conjunct2, THEN conjunct2, THEN conjunct1, THEN mp, OF h4]
  note k5 = inst [THEN conjunct2, THEN conjunct2, THEN conjunct2, THEN conjunct2, THEN conjunct1,
      THEN mp, OF h5]
  note k6 = inst [THEN conjunct2, THEN conjunct2, THEN conjunct2, THEN conjunct2, THEN conjunct2,
      THEN mp, OF h6]
  show ?thesis
    using k1 k2 k3 k4 k5 k6
    by (simp add: fields slugify_hello_world slugify_open_day insert_row_def)
qed


section \<open>Detail URLs of the interesting materials\<close>






section \<open>Unique slugs under the framework's write\<close>

lemma fold_max_ge: "(n::nat) \<le> fold (\<lambda>k n. case k of None \<Rightarrow> n | Some i \<Rightarrow> max i n) ks n"
proof (induction ks arbitrary: n)
  case Nil then show ?case by simp
next
  case (Cons k ks)
  show ?case
  proof (cases k)
    case None
    with Cons show ?thesis by simp
  next
    case (Some i)
    have "max i n \<le> fold (\<lambda>k n. case k of None \<Rightarrow> n | Some i \<Rightarrow> max i n) ks (max i n)"
      by (rule Cons.IH)
    with Some show ?thesis by simp
  qed
qed

lemma fold_max_mem:
  "Some i \<in> set ks \<Longrightarrow> (i::nat) \<le> fold (\<lambda>k n. case k of None \<Rightarrow> n | Some i \<Rightarrow> max i n) ks n"
proof (induction ks arbitrary: n)
  case Nil then show ?case by simp
next
  case (Cons k ks)
  show ?case
  proof (cases "k = Some i")
    case True
    have "max i n \<le> fold (\<lambda>k n. case k of None \<Rightarrow> n | Some i \<Rightarrow> max i n) ks (max i n)"
      by (rule fold_max_ge)
    with True show ?thesis by simp
  next
    case False
    with Cons.prems have "Some i \<in> set ks" by simp
    then show ?thesis using Cons.IH by (cases k) simp_all
  qed
qed

lemma fresh_pk: "Some (Suc (max_pk ks)) \<notin> set ks"
proof
  assume "Some (Suc (max_pk ks)) \<in> set ks"
  then have "Suc (max_pk ks) \<le> max_pk ks"
    unfolding max_pk_def by (rule fold_max_mem)
  then show False by simp
qed

lemma distinct_replace:
  assumes "distinct (map get_pk rows)"
    and "distinct (map col rows)"
    and "col self \<notin> col ` {r \<in> set rows. get_pk r \<noteq> Some k}"
  shows "distinct (map col (map (\<lambda>r. if get_pk r = Some k then self else r) rows))"
  using assms
proof (induction rows)
  case Nil then show ?case by simp
next
  case (Cons r rows)
  show ?case
  proof (cases "get_pk r = Some k")
    case True
    then have "\<forall>r' \<in> set rows. get_pk r' \<noteq> Some k"
      using Cons.prems(1) by (auto simp: image_iff) 
    then have same: "map (\<lambda>r. if get_pk r = Some k then self else r) rows = rows"
      by (simp add: map_idI)
    have "col self \<notin> col ` set rows"
      using Cons.prems(3) \<open>\<forall>r' \<in> set rows. get_pk r' \<noteq> Some k\<close> by auto
    with Cons.prems(2) True same show ?thesis by simp
  next
    case False
    let ?f = "\<lambda>r. if get_pk r = Some k then self else r"
    have ih: "distinct (map col (map ?f rows))"
      using Cons by auto
    have "r \<in> {r' \<in> set (r # rows). get_pk r' \<noteq> Some k}"
      using False by simp
    then have "col r \<in> col ` {r' \<in> set (r # rows). get_pk r' \<noteq> Some k}"
      by (rule imageI)
    then have "col r \<noteq> col self" using Cons.prems(3) by metis
    moreover have "col r \<notin> col ` set rows" using Cons.prems(2) by simp
    moreover have "set (map col (map ?f rows)) \<subseteq> insert (col self) (col ` set rows)"
      by auto
    ultimately have notin: "col r \<notin> set (map col (map ?f rows))"
      by blast
    have step: "map col (map ?f (r # rows)) = col r # map col (map ?f rows)"
      using False by simp
    show ?thesis
      unfolding step using notin ih by (metis distinct.simps(2))
  qed
qed

lemma Model_save_preserves:
  assumes laws: "\<And>k r. get_pk (set_pk k r) = k"
      "\<And>k r col. col \<in> set cols \<Longrightarrow> col (set_pk k r) = col r"
    and ok: "table_ok get_pk cols rows"
    and res: "Model_save get_pk set_pk cols self rows = Inr rows'"
  shows "table_ok get_pk cols rows'"
proof -
  let ?others = "filter (\<lambda>r. get_pk r \<noteq> get_pk self) rows"
  from res have free: "\<forall>col \<in> set cols. col self \<notin> set (map col ?others)"
    by (auto simp: Model_save_def Let_def list_ex_iff split: if_splits)
  from ok have nn: "None \<notin> set (map get_pk rows)" and dp: "distinct (map get_pk rows)"
    and du: "\<forall>col \<in> set cols. distinct (map col rows)"
    by (auto simp: table_ok_def list_all_iff unique_column_def)
  show ?thesis
  proof (cases "get_pk self")
    case None
    have "\<forall>r \<in> set rows. get_pk r \<noteq> None"
      using nn by force
    with None have oth: "?others = rows"
      by (simp add: filter_id_conv)
    let ?new = "set_pk (Some (Suc (max_pk (map get_pk rows)))) self"
    from res None free have rows': "rows' = rows @ [?new]"
      by (auto simp: Model_save_def Let_def list_ex_iff split: if_splits)
    have "get_pk ?new \<notin> set (map get_pk rows)"
      using fresh_pk [of "map get_pk rows"] by (simp add: laws)
    moreover have "\<forall>col \<in> set cols. col ?new \<notin> set (map col rows)"
      using free oth by (simp add: laws)
    ultimately show ?thesis
      using nn dp du rows' by (auto simp: table_ok_def list_all_iff unique_column_def laws)
  next
    case (Some k)
    show ?thesis
    proof (cases "Some k \<in> set (map get_pk rows)")
      case True
      let ?f = "\<lambda>r. if get_pk r = Some k then self else r"
      from res Some True free have rows': "rows' = map ?f rows"
        by (auto simp: Model_save_def Let_def list_ex_iff split: if_splits)
      have pks: "map get_pk (map ?f rows) = map get_pk rows"
        using Some by (induction rows) auto
      have "\<forall>col \<in> set cols. distinct (map col (map ?f rows))"
      proof
        fix col assume c: "col \<in> set cols"
        have "col self \<notin> col ` {r \<in> set rows. get_pk r \<noteq> Some k}"
          using free c Some by auto
        with dp du c show "distinct (map col (map ?f rows))"
          by (intro distinct_replace) auto
      qed
      then have "table_ok get_pk cols (map ?f rows)"
        unfolding table_ok_def list_all_iff unique_column_def pks using nn dp by blast
      then show ?thesis
        by (simp only: rows')
    next
      case False
      then have "\<forall>r \<in> set rows. get_pk r \<noteq> Some k"
        by force
      with Some have oth: "?others = rows"
        by (simp add: filter_id_conv)
      from res Some False free have rows': "rows' = rows @ [self]"
        by (auto simp: Model_save_def Let_def list_ex_iff split: if_splits)
      have "\<forall>col \<in> set cols. col self \<notin> set (map col rows)"
        using free oth by simp
      then show ?thesis
        using nn dp du rows' False Some by (auto simp: table_ok_def list_all_iff unique_column_def)
    qed
  qed
qed

lemma Model_save_rejects:
  assumes "r \<in> set rows" "get_pk r \<noteq> get_pk self" "col \<in> set cols" "col r = col self"
  shows "Model_save get_pk set_pk cols self rows = Inl IntegrityError"
proof -
  let ?others = "filter (\<lambda>r. get_pk r \<noteq> get_pk self) rows"
  from assms(1,2) have "r \<in> set ?others" by simp
  then have "col r \<in> set (map col ?others)" by (simp only: set_map imageI)
  with assms(4) have "col self \<in> set (map col ?others)" by simp
  with assms(3) have "list_ex (\<lambda>col. col self \<in> set (map col ?others)) cols"
    unfolding list_ex_iff by blast
  then show ?thesis
    by (simp add: Model_save_def Let_def)
qed

lemma writes_ok:
  assumes "\<And>x rows rows'. table_ok get_pk cols rows \<Longrightarrow> w x rows = Inr rows' \<Longrightarrow> table_ok get_pk cols rows'"
    and "table_ok get_pk cols rows"
  shows "table_ok get_pk cols (writes w xs rows)"
  using assms(2)
proof (induction xs arbitrary: rows)
  case Nil then show ?case by simp
next
  case (Cons x xs)
  show ?case
  proof (cases "w x rows")
    case (Inl e)
    with Cons show ?thesis by simp
  next
    case (Inr rows')
    with Cons.prems have "table_ok get_pk cols rows'" using assms(1) by blast
    with Cons.IH Inr show ?thesis by simp
  qed
qed

lemma table_ok_empty: "table_ok get_pk cols []"
  by (simp add: table_ok_def list_all_iff unique_column_def)

lemma table_ok_unique: "table_ok get_pk cols rows \<Longrightarrow> col \<in> set cols \<Longrightarrow> unique_column col rows"
  by (simp add: table_ok_def list_all_iff)

lemma MediaPublication_writes_ok:
  "table_ok MediaPublication.pk [MediaPublication.slug]
     (writes (MediaPublication_save sl MediaPublication_write) ms [])"
proof (rule writes_ok [OF _ table_ok_empty])
  fix x :: MediaPublication and rows rows'
  assume "table_ok MediaPublication.pk [MediaPublication.slug] rows"
    and "MediaPublication_save sl MediaPublication_write x rows = Inr rows'"
  then show "table_ok MediaPublication.pk [MediaPublication.slug] rows'"
    unfolding MediaPublication_save_def MediaPublication_write_def Let_def
    by (rule Model_save_preserves [rotated 2]) auto
qed

lemma Project_writes_ok:
  "table_ok Project.pk [Project.slug] (writes (Project_save sl Project_write) ps [])"
proof (rule writes_ok [OF _ table_ok_empty])
  fix x :: Project and rows rows'
  assume "table_ok Project.pk [Project.slug] rows"
    and "Project_save sl Project_write x rows = Inr rows'"
  then show "table_ok Project.pk [Project.slug] rows'"
    unfolding Project_save_def Project_write_def Let_def
    by (rule Model_save_preserves [rotated 2]) auto
qed

lemma InterestingBase_writes_ok:
  "table_ok InterestingBase.pk [InterestingBase.slug]
     (writes (InterestingBase_save sl InterestingBase_write) bs [])"
proof (rule writes_ok [OF _ table_ok_empty])
  fix x :: "'a InterestingBase_scheme" and rows rows'
  assume "table_ok InterestingBase.pk [InterestingBase.slug] rows"
    and "InterestingBase_save sl InterestingBase_write x rows = Inr rows'"
  then show "table_ok InterestingBase.pk [InterestingBase.slug] rows'"
    unfolding InterestingBase_save_def InterestingBase_write_def Let_def
    by (rule Model_save_preserves [rotated 2]) auto
qed

lemma InterestingTag_writes_ok:
  "table_ok InterestingTag.pk [InterestingTag.name, InterestingTag.slug]
     (writes (InterestingTag_save sl InterestingTag_write) ts [])"
proof (rule writes_ok [OF _ table_ok_empty])
  fix x :: InterestingTag and rows rows'
  assume "table_ok InterestingTag.pk [InterestingTag.name, InterestingTag.slug] rows"
    and "InterestingTag_save sl InterestingTag_write x rows = Inr rows'"
  then show "table_ok InterestingTag.pk [InterestingTag.name, InterestingTag.slug] rows'"
    unfolding InterestingTag_save_def InterestingTag_write_def Let_def
    by (rule Model_save_preserves [rotated 2]) auto
qed

lemma save_is_one_write:
  "MediaPublication_save sl sv1 m db1 = sv1 (MediaPublication_save sl handed_over m ()) db1"
  "Project_save sl sv2 p db2 = sv2 (Project_save sl handed_over p ()) db2"
  "InterestingBase_save sl sv3 b db3 = sv3 (InterestingBase_save sl handed_over b ()) db3"
  "InterestingTag_save sl sv4 t db4 = sv4 (InterestingTag_save sl handed_over t ()) db4"
  by (simp_all add: MediaPublication_save_def Project_save_def InterestingBase_save_def
      InterestingTag_save_def handed_over_def)

lemma handed_over_pk:
  "MediaPublication.pk (MediaPublication_save sl handed_over m ()) = MediaPublication.pk m"
  "Project.pk (Project_save sl handed_over p ()) = Project.pk p"
  "InterestingBase.pk (InterestingBase_save sl handed_over b ()) = InterestingBase.pk b"
  "InterestingTag.pk (InterestingTag_save sl handed_over t ()) = InterestingTag.pk t"
  "InterestingTag.name (InterestingTag_save sl handed_over t ()) = InterestingTag.name t"
  by (simp_all add: MediaPublication_save_def Project_save_def InterestingBase_save_def
      InterestingTag_save_def handed_over_def)

text \<open>
  C4. Every table that a run of saves builds from the empty table has pairwise
  distinct slugs (and, for tags, pairwise distinct names). A save is one write of the
  instance it hands over, with no second attempt and no changed slug; when another
  row of the table already holds the slug of that instance (or, for a tag, its name),
  the save ends in \<open>IntegrityError\<close> and no table is written.
\<close>

theorem unique_slug_enforced:
  "unique_column MediaPublication.slug (writes (MediaPublication_save sl MediaPublication_write) ms []) \<and>
   unique_column Project.slug (writes (Project_save sl Project_write) ps []) \<and>
   unique_column InterestingBase.slug (writes (InterestingBase_save sl InterestingBase_write) bs []) \<and>
   unique_column InterestingTag.slug (writes (InterestingTag_save sl InterestingTag_write) ts []) \<and>
   unique_column InterestingTag.name (writes (InterestingTag_save sl InterestingTag_write) ts []) \<and>
   MediaPublication_save sl sv1 m db1 = sv1 (MediaPublication_save sl handed_over m ()) db1 \<and>
   Project_save sl sv2 p db2 = sv2 (Project_save sl handed_over p ()) db2 \<and>
   InterestingBase_save sl sv3 b db3 = sv3 (InterestingBase_save sl handed_over b ()) db3 \<and>
   InterestingTag_save sl sv4 t db4 = sv4 (InterestingTag_save sl handed_over t ()) db4 \<and>
   (m' \<in> set mrows \<and> MediaPublication.pk m' \<noteq> MediaPublication.pk m \<and>
    MediaPublication.slug m' = MediaPublication.slug (MediaPublication_save sl handed_over m ()) \<longrightarrow>
      MediaPublication_save sl MediaPublication_write m mrows = Inl IntegrityError) \<and>
   (p' \<in> set prows \<and> Project.pk p' \<noteq> Project.pk p \<and>
    Project.slug p' = Project.slug (Project_save sl handed_over p ()) \<longrightarrow>
      Project_save sl Project_write p prows = Inl IntegrityError) \<and>
   (b' \<in> set brows \<and> InterestingBase.pk b' \<noteq> InterestingBase.pk b \<and>
    InterestingBase.slug b' = InterestingBase.slug (InterestingBase_save sl handed_over b ()) \<longrightarrow>
      InterestingBase_save sl InterestingBase_write b brows = Inl IntegrityError) \<and>
   (t' \<in> set trows \<and> InterestingTag.pk t' \<noteq> InterestingTag.pk t \<and>
    InterestingTag.slug t' = InterestingTag.slug (InterestingTag_save sl handed_over t ()) \<longrightarrow>
      InterestingTag_save sl InterestingTag_write t trows = Inl IntegrityError) \<and>
   (t'' \<in> set trows \<and> InterestingTag.pk t'' \<noteq> InterestingTag.pk t \<and>
    InterestingTag.name t'' = InterestingTag.name t \<longrightarrow>
      InterestingTag_save sl InterestingTag_write t trows = Inl IntegrityError)"
proof (intro conjI impI)
  show "unique_column MediaPublication.slug
      (writes (MediaPublication_save sl MediaPublication_write) ms [])"
    by (rule table_ok_unique [OF MediaPublication_writes_ok]) simp
  show "unique_column Project.slug (writes (Project_save sl Project_write) ps [])"
    by (rule table_ok_unique [OF Project_writes_ok]) simp
  show "unique_column InterestingBase.slug
      (writes (InterestingBase_save sl InterestingBase_write) bs [])"
    by (rule table_ok_unique [OF InterestingBase_writes_ok]) simp
  show "unique_column InterestingTag.slug (writes (InterestingTag_save sl InterestingTag_write) ts [])"
    by (rule table_ok_unique [OF InterestingTag_writes_ok]) simp
  show "unique_column InterestingTag.name (writes (InterestingTag_save sl InterestingTag_write) ts [])"
    by (rule table_ok_unique [OF InterestingTag_writes_ok]) simp
next
  assume "m' \<in> set mrows \<and> MediaPublication.pk m' \<noteq> MediaPublication.pk m \<and>
    MediaPublication.slug m' = MediaPublication.slug (MediaPublication_save sl handed_over m ())"
  then have "MediaPublication_write (MediaPublication_save sl handed_over m ()) mrows = Inl IntegrityError"
    unfolding MediaPublication_write_def
    by (intro Model_save_rejects [where r = m' and col = MediaPublication.slug])
      (simp_all add: handed_over_pk)
  then show "MediaPublication_save sl MediaPublication_write m mrows = Inl IntegrityError"
    by (simp only: save_is_one_write(1) [of sl MediaPublication_write])
next
  assume "p' \<in> set prows \<and> Project.pk p' \<noteq> Project.pk p \<and>
    Project.slug p' = Project.slug (Project_save sl handed_over p ())"
  then have "Project_write (Project_save sl handed_over p ()) prows = Inl IntegrityError"
    unfolding Project_write_def
    by (intro Model_save_rejects [where r = p' and col = Project.slug])
      (simp_all add: handed_over_pk)
  then show "Project_save sl Project_write p prows = Inl IntegrityError"
    by (simp only: save_is_one_write(2) [of sl Project_write])
next
  assume "b' \<in> set brows \<and> InterestingBase.pk b' \<noteq> InterestingBase.pk b \<and>
    InterestingBase.slug b' = InterestingBase.slug (InterestingBase_save sl handed_over b ())"
  then have "InterestingBase_write (InterestingBase_save sl handed_over b ()) brows = Inl IntegrityError"
    unfolding InterestingBase_write_def
    by (intro Model_save_rejects [where r = b' and col = InterestingBase.slug])
      (simp_all add: handed_over_pk)
  then show "InterestingBase_save sl InterestingBase_write b brows = Inl IntegrityError"
    by (simp only: save_is_one_write(3) [of sl InterestingBase_write])
next
  assume "t' \<in> set trows \<and> InterestingTag.pk t' \<noteq> InterestingTag.pk t \<and>
    InterestingTag.slug t' = InterestingTag.slug (InterestingTag_save sl handed_over t ())"
  then have "InterestingTag_write (InterestingTag_save sl handed_over t ()) trows = Inl IntegrityError"
    unfolding InterestingTag_write_def
    by (intro Model_save_rejects [where r = t' and col = InterestingTag.slug])
      (simp_all add: handed_over_pk)
  then show "InterestingTag_save sl InterestingTag_write t trows = Inl IntegrityError"
    by (simp only: save_is_one_write(4) [of sl InterestingTag_write])
next
  assume "t'' \<in> set trows \<and> InterestingTag.pk t'' \<noteq> InterestingTag.pk t \<and>
    InterestingTag.name t'' = InterestingTag.name t"
  then have "InterestingTag_write (InterestingTag_save sl handed_over t ()) trows = Inl IntegrityError"
    unfolding InterestingTag_write_def
    by (intro Model_save_rejects [where r = t'' and col = InterestingTag.name])
      (simp_all add: handed_over_pk)
  then show "InterestingTag_save sl InterestingTag_write t trows = Inl IntegrityError"
    by (simp only: save_is_one_write(4) [of sl InterestingTag_write])
qed (rule save_is_one_write)+

theorem unique_slug_enforced_witness:
  "MediaPublication_save (slugify (normalize_NFKD (\<lambda>s. s))) MediaPublication_write sample_publication [] = Inr [sample_publication\<lparr>MediaPublication.slug := ustr ''hello-world'', MediaPublication.pk := Some 1\<rparr>] \<and>
   sample_publication\<lparr>MediaPublication.slug := ustr ''hello-world'', MediaPublication.pk := Some 1\<rparr> \<in> set [sample_publication\<lparr>MediaPublication.slug := ustr ''hello-world'', MediaPublication.pk := Some 1\<rparr>] \<and>
   MediaPublication.pk (sample_publication\<lparr>MediaPublication.slug := ustr ''hello-world'', MediaPublication.pk := Some 1\<rparr>) \<noteq> MediaPublication.pk sample_publication \<and>
   MediaPublication.slug (sample_publication\<lparr>MediaPublication.slug := ustr ''hello-world'', MediaPublication.pk := Some 1\<rparr>) =
     MediaPublication.slug (MediaPublication_save (slugify (normalize_NFKD (\<lambda>s. s))) handed_over sample_publication ()) \<and>
   MediaPublication_save (slugify (normalize_NFKD (\<lambda>s. s))) MediaPublication_write sample_publication [sample_publication\<lparr>MediaPublication.slug := ustr ''hello-world'', MediaPublication.pk := Some 1\<rparr>] = Inl IntegrityError \<and>
   Project_save (slugify (normalize_NFKD (\<lambda>s. s))) Project_write sample_project [] = Inr [sample_project\<lparr>Project.slug := ustr ''city-garden-2024'', Project.pk := Some 1\<rparr>] \<and>
   sample_project\<lparr>Project.slug := ustr ''city-garden-2024'', Project.pk := Some 1\<rparr> \<in> set [sample_project\<lparr>Project.slug := ustr ''city-garden-2024'', Project.pk := Some 1\<rparr>] \<and>
   Project.pk (sample_project\<lparr>Project.slug := ustr ''city-garden-2024'', Project.pk := Some 1\<rparr>) \<noteq> Project.pk sample_project \<and>
   Project.slug (sample_project\<lparr>Project.slug := ustr ''city-garden-2024'', Project.pk := Some 1\<rparr>) =
     Project.slug (Project_save (slugify (normalize_NFKD (\<lambda>s. s))) handed_over sample_project ()) \<and>
   Project_save (slugify (normalize_NFKD (\<lambda>s. s))) Project_write sample_project [sample_project\<lparr>Project.slug := ustr ''city-garden-2024'', Project.pk := Some 1\<rparr>] = Inl IntegrityError \<and>
   InterestingBase_save (slugify (normalize_NFKD (\<lambda>s. s))) InterestingBase_write sample_video [] = Inr [sample_video\<lparr>InterestingBase.slug := ustr ''open-day'', InterestingBase.pk := Some 1\<rparr>] \<and>
   sample_video\<lparr>InterestingBase.slug := ustr ''open-day'', InterestingBase.pk := Some 1\<rparr> \<in> set [sample_video\<lparr>InterestingBase.slug := ustr ''open-day'', InterestingBase.pk := Some 1\<rparr>] \<and>
   InterestingBase.pk (sample_video\<lparr>InterestingBase.slug := ustr ''open-day'', InterestingBase.pk := Some 1\<rparr>) \<noteq> InterestingBase.pk sample_video \<and>
   InterestingBase.slug (sample_video\<lparr>InterestingBase.slug := ustr ''open-day'', InterestingBase.pk := Some 1\<rparr>) =
     InterestingBase.slug (InterestingBase_save (slugify (normalize_NFKD (\<lambda>s. s))) handed_over sample_video ()) \<and>
   InterestingBase_save (slugify (normalize_NFKD (\<lambda>s. s))) InterestingBase_write sample_video [sample_video\<lparr>InterestingBase.slug := ustr ''open-day'', InterestingBase.pk := Some 1\<rparr>] = Inl IntegrityError \<and>
   InterestingTag_save (slugify (normalize_NFKD (\<lambda>s. s))) InterestingTag_write sample_tag [] = Inr [sample_tag\<lparr>InterestingTag.slug := ustr ''open-day'', InterestingTag.pk := Some 1\<rparr>] \<and>
   sample_tag\<lparr>InterestingTag.slug := ustr ''open-day'', InterestingTag.pk := Some 1\<rparr> \<in> set [sample_tag\<lparr>InterestingTag.slug := ustr ''open-day'', InterestingTag.pk := Some 1\<rparr>] \<and>
   InterestingTag.pk (sample_tag\<lparr>InterestingTag.slug := ustr ''open-day'', InterestingTag.pk := Some 1\<rparr>) \<noteq> InterestingTag.pk sample_tag \<and>
   InterestingTag.slug (sample_tag\<lparr>InterestingTag.slug := ustr ''open-day'', InterestingTag.pk := Some 1\<rparr>) =
     InterestingTag.slug (InterestingTag_save (slugify (normalize_NFKD (\<lambda>s. s))) handed_over sample_tag ()) \<and>
   InterestingTag_save (slugify (normalize_NFKD (\<lambda>s. s))) InterestingTag_write sample_tag [sample_tag\<lparr>InterestingTag.slug := ustr ''open-day'', InterestingTag.pk := Some 1\<rparr>] = Inl IntegrityError \<and>
   sample_tag\<lparr>InterestingTag.slug := ustr ''open-day'', InterestingTag.pk := Some 1\<rparr> \<in> set [sample_tag\<lparr>InterestingTag.slug := ustr ''open-day'', InterestingTag.pk := Some 1\<rparr>] \<and>
   InterestingTag.pk (sample_tag\<lparr>InterestingTag.slug := ustr ''open-day'', InterestingTag.pk := Some 1\<rparr>) \<noteq> InterestingTag.pk sample_tag \<and>
   InterestingTag.name (sample_tag\<lparr>InterestingTag.slug := ustr ''open-day'', InterestingTag.pk := Some 1\<rparr>) = InterestingTag.name sample_tag"
proof -
  have fields:
    "MediaPublication.title sample_publication = ustr ''Hello, World!''"
    "MediaPublication.slug sample_publication = []"
    "MediaPublication.pk sample_publication = None"
    "Project.title sample_project = ustr ''City Garden 2024''"
    "Project.slug sample_project = []"
    "Project.pk sample_project = None"
    "InterestingBase.title sample_video = ustr ''Open Day''"
    "InterestingBase.slug sample_video = []"
    "InterestingBase.pk sample_video = None"
    "InterestingTag.name sample_tag = ustr ''Open Day''"
    "InterestingTag.slug sample_tag = []"
    "InterestingTag.pk sample_tag = None"
    by (simp_all add: sample_publication_def sample_project_def sample_video_def sample_tag_def)
  have handed:
    "MediaPublication_save (slugify (normalize_NFKD (\<lambda>s. s))) handed_over sample_publication () =
       sample_publication\<lparr>MediaPublication.slug := ustr ''hello-world''\<rparr>"
    "Project_save (slugify (normalize_NFKD (\<lambda>s. s))) handed_over sample_project () =
       sample_project\<lparr>Project.slug := ustr ''city-garden-2024''\<rparr>"
    "InterestingBase_save (slugify (normalize_NFKD (\<lambda>s. s))) handed_over sample_video () =
       sample_video\<lparr>InterestingBase.slug := ustr ''open-day''\<rparr>"
    "InterestingTag_save (slugify (normalize_NFKD (\<lambda>s. s))) handed_over sample_tag () =
       sample_tag\<lparr>InterestingTag.slug := ustr ''open-day''\<rparr>"
    by (simp_all add: MediaPublication_save_def Project_save_def InterestingBase_save_def
        InterestingTag_save_def handed_over_def fields slugify_hello_world slugify_city_garden
        slugify_open_day)
  have first:
    "MediaPublication_save (slugify (normalize_NFKD (\<lambda>s. s))) MediaPublication_write sample_publication [] = Inr [sample_publication\<lparr>MediaPublication.slug := ustr ''hello-world'', MediaPublication.pk := Some 1\<rparr>]"
    "Project_save (slugify (normalize_NFKD (\<lambda>s. s))) Project_write sample_project [] = Inr [sample_project\<lparr>Project.slug := ustr ''city-garden-2024'', Project.pk := Some 1\<rparr>]"
    "InterestingBase_save (slugify (normalize_NFKD (\<lambda>s. s))) InterestingBase_write sample_video [] = Inr [sample_video\<lparr>InterestingBase.slug := ustr ''open-day'', InterestingBase.pk := Some 1\<rparr>]"
    "InterestingTag_save (slugify (normalize_NFKD (\<lambda>s. s))) InterestingTag_write sample_tag [] = Inr [sample_tag\<lparr>InterestingTag.slug := ustr ''open-day'', InterestingTag.pk := Some 1\<rparr>]"
    unfolding save_is_one_write(1) [of _ MediaPublication_write]
      save_is_one_write(2) [of _ Project_write] save_is_one_write(3) [of _ InterestingBase_write]
      save_is_one_write(4) [of _ InterestingTag_write] handed
    by (simp_all add: MediaPublication_write_def Project_write_def InterestingBase_write_def
        InterestingTag_write_def Model_save_def max_pk_def fields)
  have h1: "sample_publication\<lparr>MediaPublication.slug := ustr ''hello-world'', MediaPublication.pk := Some 1\<rparr> \<in> set [sample_publication\<lparr>MediaPublication.slug := ustr ''hello-world'', MediaPublication.pk := Some 1\<rparr>] \<and>
   MediaPublication.pk (sample_publication\<lparr>MediaPublication.slug := ustr ''hello-world'', MediaPublication.pk := Some 1\<rparr>) \<noteq> MediaPublication.pk sample_publication \<and>
   MediaPublication.slug (sample_publication\<lparr>MediaPublication.slug := ustr ''hello-world'', MediaPublication.pk := Some 1\<rparr>) =
     MediaPublication.slug (MediaPublication_save (slugify (normalize_NFKD (\<lambda>s. s))) handed_over sample_publication ())"
    by (simp add: handed fields)
  have h2: "sample_project\<lparr>Project.slug := ustr ''city-garden-2024'', Project.pk := Some 1\<rparr> \<in> set [sample_project\<lparr>Project.slug := ustr ''city-garden-2024'', Project.pk := Some 1\<rparr>] \<and>
   Project.pk (sample_project\<lparr>Project.slug := ustr ''city-garden-2024'', Project.pk := Some 1\<rparr>) \<noteq> Project.pk sample_project \<and>
   Project.slug (sample_project\<lparr>Project.slug := ustr ''city-garden-2024'', Project.pk := Some 1\<rparr>) =
     Project.slug (Project_save (slugify (normalize_NFKD (\<lambda>s. s))) handed_over sample_project ())"
    by (simp add: handed fields)
  have h3: "sample_video\<lparr>InterestingBase.slug := ustr ''open-day'', InterestingBase.pk := Some 1\<rparr> \<in> set [sample_video\<lparr>InterestingBase.slug := ustr ''open-day'', InterestingBase.pk := Some 1\<rparr>] \<and>
   InterestingBase.pk (sample_video\<lparr>InterestingBase.slug := ustr ''open-day'', InterestingBase.pk := Some 1\<rparr>) \<noteq> InterestingBase.pk sample_video \<and>
   InterestingBase.slug (sample_video\<lparr>InterestingBase.slug := ustr ''open-day'', InterestingBase.pk := Some 1\<rparr>) =
     InterestingBase.slug (InterestingBase_save (slugify (normalize_NFKD (\<lambda>s. s))) handed_over sample_video ())"
    by (simp add: handed fields)
  have h4: "sample_tag\<lparr>InterestingTag.slug := ustr ''open-day'', InterestingTag.pk := Some 1\<rparr> \<in> set [sample_tag\<lparr>InterestingTag.slug := ustr ''open-day'', InterestingTag.pk := Some 1\<rparr>] \<and>
   InterestingTag.pk (sample_tag\<lparr>InterestingTag.slug := ustr ''open-day'', InterestingTag.pk := Some 1\<rparr>) \<noteq> InterestingTag.pk sample_tag \<and>
   InterestingTag.slug (sample_tag\<lparr>InterestingTag.slug := ustr ''open-day'', InterestingTag.pk := Some 1\<rparr>) =
     InterestingTag.slug (InterestingTag_save (slugify (normalize_NFKD (\<lambda>s. s))) handed_over sample_tag ())"
    by (simp add: handed fields)
  have h5: "sample_tag\<lparr>InterestingTag.slug := ustr ''open-day'', InterestingTag.pk := Some 1\<rparr> \<in> set [sample_tag\<lparr>InterestingTag.slug := ustr ''open-day'', InterestingTag.pk := Some 1\<rparr>] \<and>
   InterestingTag.pk (sample_tag\<lparr>InterestingTag.slug := ustr ''open-day'', InterestingTag.pk := Some 1\<rparr>) \<noteq> InterestingTag.pk sample_tag \<and>
   InterestingTag.name (sample_tag\<lparr>InterestingTag.slug := ustr ''open-day'', InterestingTag.pk := Some 1\<rparr>) = InterestingTag.name sample_tag"
    by (simp add: fields)
  note inst = unique_slug_enforced
      [where sl = "slugify (normalize_NFKD (\<lambda>s. s))"
         and m = sample_publication and m' = "sample_publication\<lparr>MediaPublication.slug := ustr ''hello-world'', MediaPublication.pk := Some 1\<rparr>" and mrows = "[sample_publication\<lparr>MediaPublication.slug := ustr ''hello-world'', MediaPublication.pk := Some 1\<rparr>]"
         and p = sample_project and p' = "sample_project\<lparr>Project.slug := ustr ''city-garden-2024'', Project.pk := Some 1\<rparr>" and prows = "[sample_project\<lparr>Project.slug := ustr ''city-garden-2024'', Project.pk := Some 1\<rparr>]"
         and b = sample_video and b' = "sample_video\<lparr>InterestingBase.slug := ustr ''open-day'', InterestingBase.pk := Some 1\<rparr>" and brows = "[sample_video\<lparr>InterestingBase.slug := ustr ''open-day'', InterestingBase.pk := Some 1\<rparr>]"
         and t = sample_tag and t' = "sample_tag\<lparr>InterestingTag.slug := ustr ''open-day'', InterestingTag.pk := Some 1\<rparr>"
         and t'' = "sample_tag\<lparr>InterestingTag.slug := ustr ''open-day'', InterestingTag.pk := Some 1\<rparr>" and trows = "[sample_tag\<lparr>InterestingTag.slug := ustr ''open-day'', InterestingTag.pk := Some 1\<rparr>]"]
  note k1 = inst [THEN conjunct2, THEN conjunct2, THEN conjunct2, THEN conjunct2, THEN conjunct2, THEN conjunct2, THEN conjunct2, THEN conjunct2, THEN conjunct2, THEN conjunct1, THEN mp, OF h1]
  note k2 = inst [THEN conjunct2, THEN conjunct2, THEN conjunct2, THEN conjunct2, THEN conjunct2, THEN conjunct2, THEN conjunct2, THEN conjunct2, THEN conjunct2, THEN conjunct2, THEN conjunct1, THEN mp, OF h2]
  note k3 = inst [THEN conjunct2, THEN conjunct2, THEN conjunct2, THEN conjunct2, THEN conjunct2, THEN conjunct2, THEN conjunct2, THEN conjunct2, THEN conjunct2, THEN conjunct2, THEN conjunct2, THEN conjunct1, THEN mp, OF h3]
  note k4 = inst [THEN conjunct2, THEN conjunct2, THEN conjunct2, THEN conjunct2, THEN conjunct2, THEN conjunct2, THEN conjunct2, THEN conjunct2, THEN conjunct2, THEN conjunct2, THEN conjunct2, THEN conjunct2, THEN conjunct1, THEN mp, OF h4]
  note k5 = inst [THEN conjunct2, THEN conjunct2, THEN conjunct2, THEN conjunct2, THEN conjunct2, THEN conjunct2, THEN conjunct2, THEN conjunct2, THEN conjunct2, THEN conjunct2, THEN conjunct2, THEN conjunct2, THEN conjunct2, THEN mp, OF h5]
  show ?thesis
    using first h1 h2 h3 h4 h5 k1 k2 k3 k4 k5 by (elim conjE, intro conjI) assumption+
qed

end
